theory Spec2Isabelle
  imports Main "HOL-Library.Multiset"
begin

section \<open>Host check: \<open>analyzer/codechecker_analyzer/host_check.py\<close>\<close>

text \<open>
  \<open>check_clang(compiler_bin, env)\<close> runs \<open>[compiler_bin, '--version']\<close> through
  \<open>subprocess.call\<close> and looks at what comes back. The process launch is the only effect
  the return value depends on, so it is a parameter of the model: a function from the
  command line and the environment to the outcome of the call, which is either the exit
  status the call returned or the \<open>OSError\<close> it raised (with the \<open>errno\<close> attribute of the
  exception, which Python allows to be \<open>None\<close>).

  The Python function has three results: \<open>True\<close>, \<open>False\<close>, and the implicit \<open>None\<close> of a
  function body that ends without \<open>return\<close>. They are \<open>Some True\<close>, \<open>Some False\<close> and
  \<open>None\<close> here. The calls to the logger do not influence the result and are left out.
\<close>

datatype call_outcome =
    Returned int
  | RaisedOSError "int option"

definition ENOENT :: int where
  "ENOENT = 2"

definition check_clang ::
  "(string list \<Rightarrow> 'env \<Rightarrow> call_outcome) \<Rightarrow> string \<Rightarrow> 'env \<Rightarrow> bool option" where
  "check_clang subprocess_call compiler_bin env =
     (let clang_version_cmd = [compiler_bin, ''--version''] in
      case subprocess_call clang_version_cmd env of
        Returned res \<Rightarrow> (if res = 0 then Some True else Some False)
      | RaisedOSError oerr_errno \<Rightarrow>
          (if oerr_errno = Some ENOENT then Some False else None))"

section \<open>Database housekeeping: \<open>web/server/codechecker_server/database/db_cleanup.py\<close>\<close>

subsection \<open>Rows and tables\<close>

text \<open>
  The ORM classes (\<open>RunLock\<close>, \<open>File\<close>, \<open>FileContent\<close>, \<open>BugPathEvent\<close>,
  \<open>BugReportPoint\<close>, \<open>Report\<close>) are declared in \<open>run_db_model\<close>, which is not among the
  sources; the rows below carry the columns that \<open>db_cleanup.py\<close> reads and the columns
  of the foreign keys between these tables, as that schema declares them:
  \<^item> \<open>File.id\<close>, \<open>FileContent.content_hash\<close> and \<open>Report.id\<close> are primary keys:
    they hold values, and so does \<open>RunLock.locked_at\<close>, the time the lock was taken;
  \<^item> \<open>File.content_hash\<close> references \<open>FileContent.content_hash\<close>;
    \<open>BugPathEvent.file_id\<close>, \<open>BugReportPoint.file_id\<close> and \<open>Report.file_id\<close> reference
    \<open>File.id\<close>; \<open>BugPathEvent.report_id\<close> and \<open>BugReportPoint.report_id\<close> (parts of the
    primary keys) reference \<open>Report.id\<close>. Every one of these foreign keys is declared
    \<open>ondelete='CASCADE'\<close>, and the first four columns are nullable: SQL \<open>NULL\<close> is
    \<open>None\<close>.
  A table is the list of its rows.

  A \<open>datetime\<close> is a count of microseconds, the resolution of Python's \<open>datetime\<close>, and
  a \<open>timedelta\<close> is a number of microseconds.
\<close>

type_synonym datetime = int

record run_lock =
  lock_name :: string
  locked_at :: datetime

record file_row =
  file_id :: nat
  filepath :: string
  file_content_hash :: "string option"

record file_content_row =
  content_hash :: string
  content :: string

record bug_path_event =
  bpe_file_id :: "nat option"
  bpe_report_id :: nat

record bug_report_point =
  brp_file_id :: "nat option"
  brp_report_id :: nat

record report_row =
  report_id :: nat
  report_file_id :: "nat option"
  checker_id :: string
  severity :: int

record database =
  run_locks :: "run_lock list"
  files :: "file_row list"
  file_contents :: "file_content_row list"
  bug_path_events :: "bug_path_event list"
  bug_report_points :: "bug_report_point list"
  reports :: "report_row list"

subsection \<open>Sessions, statements and their failures\<close>

text \<open>
  Each routine works inside \<open>with DBSession(session_maker) as session\<close>: the statements
  change the transaction's view of the database (\<open>pending\<close>) and only
  \<open>session.commit()\<close> makes that view the stored database. Leaving the \<open>with\<close> block
  closes the session, which drops whatever was not committed.

  A statement or the commit can raise \<open>sqlalchemy.exc.OperationalError\<close> or
  \<open>ProgrammingError\<close>; each routine catches both, logs the error and returns. Whether a
  given statement raises is decided outside the program, so it is an argument of the
  model: \<open>None\<close> when the statement goes through, \<open>Some ex\<close> when it raises \<open>ex\<close>.
\<close>

datatype db_exc =
    OperationalError string
  | ProgrammingError string

fun str_exc :: "db_exc \<Rightarrow> string" where
  "str_exc (OperationalError msg) = msg"
| "str_exc (ProgrammingError msg) = msg"

datatype log_record =
    Debug string
  | Error string

record session =
  stored :: database
  pending :: database

definition DBSession :: "database \<Rightarrow> session" where
  "DBSession db = \<lparr>stored = db, pending = db\<rparr>"

definition execute ::
  "db_exc option \<Rightarrow> (database \<Rightarrow> database) \<Rightarrow> session \<Rightarrow> db_exc + session" where
  "execute fault statement s =
     (case fault of
        Some ex \<Rightarrow> Inl ex
      | None \<Rightarrow> Inr (s\<lparr>pending := statement (pending s)\<rparr>))"

definition commit :: "db_exc option \<Rightarrow> session \<Rightarrow> db_exc + session" where
  "commit fault s =
     (case fault of
        Some ex \<Rightarrow> Inl ex
      | None \<Rightarrow> Inr (s\<lparr>stored := pending s\<rparr>))"

definition close :: "session \<Rightarrow> database" where
  "close s = stored s"

subsection \<open>\<open>remove_expired_run_locks\<close>\<close>





subsection \<open>SQL conditions and cascading deletes\<close>

text \<open>
  A SQL condition has three values: true, false and unknown (\<open>None\<close>). \<open>x IN (rows)\<close> is
  true when \<open>x\<close> equals a row, false when the rows are empty or \<open>x\<close> and all rows are
  values none of which equals \<open>x\<close>, and unknown otherwise, that is when a \<open>NULL\<close> takes
  part in a comparison that could have decided it. \<open>notin_\<close> is its negation, the two
  arguments of \<open>filter\<close> are joined by \<open>AND\<close>, and a \<open>DELETE\<close> removes the rows whose
  condition is true.
\<close>

definition sql_in :: "'a option \<Rightarrow> 'a option list \<Rightarrow> bool option" where
  "sql_in x rows =
     (if rows = [] then Some False
      else case x of
             None \<Rightarrow> None
           | Some v \<Rightarrow>
               if Some v \<in> set rows then Some True
               else if None \<in> set rows then None
               else Some False)"

definition sql_not :: "bool option \<Rightarrow> bool option" where
  "sql_not a = map_option Not a"

definition sql_and :: "bool option \<Rightarrow> bool option \<Rightarrow> bool option" where
  "sql_and a b =
     (if a = Some False \<or> b = Some False then Some False
      else if a = None \<or> b = None then None
      else Some True)"

definition notin :: "'a option \<Rightarrow> 'a option list \<Rightarrow> bool option" where
  "notin x rows = sql_not (sql_in x rows)"

definition sql_true :: "bool option \<Rightarrow> bool" where
  "sql_true a \<longleftrightarrow> a = Some True"

text \<open>A foreign key column names one of the given keys; \<open>NULL\<close> names none.\<close>

definition names_key :: "'a option \<Rightarrow> 'a list \<Rightarrow> bool" where
  "names_key x keys = (case x of None \<Rightarrow> False | Some k \<Rightarrow> k \<in> set keys)"

text \<open>
  Deleting \<open>File\<close> rows cascades: the reports of a deleted file go with it, and so do the
  bug path events and bug report points of a deleted file or of a deleted report.
\<close>

definition delete_files :: "(file_row \<Rightarrow> bool) \<Rightarrow> database \<Rightarrow> database" where
  "delete_files doomed db =
     (let gone_files = map file_id (filter doomed (files db));
          gone_reports =
            map report_id (filter (\<lambda>r. names_key (report_file_id r) gone_files) (reports db))
      in db\<lparr>files := filter (\<lambda>f. \<not> doomed f) (files db),
            reports := filter (\<lambda>r. \<not> names_key (report_file_id r) gone_files) (reports db),
            bug_path_events :=
              filter (\<lambda>e. \<not> names_key (bpe_file_id e) gone_files
                          \<and> bpe_report_id e \<notin> set gone_reports) (bug_path_events db),
            bug_report_points :=
              filter (\<lambda>p. \<not> names_key (brp_file_id p) gone_files
                          \<and> brp_report_id p \<notin> set gone_reports) (bug_report_points db)\<rparr>)"

text \<open>Deleting \<open>FileContent\<close> rows cascades to the \<open>File\<close> rows that hold their hash.\<close>

definition delete_file_contents :: "(file_content_row \<Rightarrow> bool) \<Rightarrow> database \<Rightarrow> database" where
  "delete_file_contents doomed db =
     (let gone_hashes = map content_hash (filter doomed (file_contents db))
      in delete_files (\<lambda>f. names_key (file_content_hash f) gone_hashes)
           (db\<lparr>file_contents := filter (\<lambda>c. \<not> doomed c) (file_contents db)\<rparr>))"

subsection \<open>\<open>remove_unused_files\<close>\<close>

text \<open>
  The two subqueries select the distinct \<open>file_id\<close>s of the bug path events and of the
  bug report points (\<open>group_by\<close>, which keeps one \<open>NULL\<close> group); the delete removes
  every \<open>File\<close> for which \<open>id NOT IN\<close> the one \<open>AND id NOT IN\<close> the other is true. The
  third subquery selects the distinct \<open>content_hash\<close>es of the \<open>File\<close> rows as the first
  delete left them, and the second delete removes every \<open>FileContent\<close> for which
  \<open>content_hash NOT IN\<close> them is true.
\<close>

definition bpe_files :: "database \<Rightarrow> nat option list" where
  "bpe_files db = remdups (map bpe_file_id (bug_path_events db))"

definition brp_files :: "database \<Rightarrow> nat option list" where
  "brp_files db = remdups (map brp_file_id (bug_report_points db))"

definition delete_unreferenced_files :: "database \<Rightarrow> database" where
  "delete_unreferenced_files db =
     delete_files
       (\<lambda>f. sql_true (sql_and (notin (Some (file_id f)) (bpe_files db))
                               (notin (Some (file_id f)) (brp_files db))))
       db"

definition file_hashes :: "database \<Rightarrow> string option list" where
  "file_hashes db = remdups (map file_content_hash (files db))"

definition delete_unreferenced_contents :: "database \<Rightarrow> database" where
  "delete_unreferenced_contents db =
     delete_file_contents (\<lambda>c. sql_true (notin (Some (content_hash c)) (file_hashes db))) db"

definition remove_unused_files ::
  "db_exc option \<Rightarrow> db_exc option \<Rightarrow> db_exc option \<Rightarrow> database
     \<Rightarrow> log_record list \<times> database" where
  "remove_unused_files files_fault contents_fault commit_fault db =
     (let session = DBSession db
      in case (case execute files_fault delete_unreferenced_files session of
                 Inl ex \<Rightarrow> Inl ex
               | Inr session1 \<Rightarrow>
                   (case execute contents_fault delete_unreferenced_contents session1 of
                      Inl ex \<Rightarrow> Inl ex
                    | Inr session2 \<Rightarrow> commit commit_fault session2)) of
           Inr session3 \<Rightarrow>
             ([Debug ''Garbage collection of dangling files started...'',
               Debug ''Garbage collection of dangling files finished.''],
              close session3)
         | Inl ex \<Rightarrow>
             ([Debug ''Garbage collection of dangling files started...'',
               Error (''Failed to remove unused files: '' @ str_exc ex)],
              close session))"

text \<open>A \<open>File\<close> row is referenced when a bug path event or a bug report point names its \<open>id\<close>.\<close>

definition referenced :: "database \<Rightarrow> file_row \<Rightarrow> bool" where
  "referenced db f \<longleftrightarrow>
     Some (file_id f) \<in> set (map bpe_file_id (bug_path_events db))
     \<or> Some (file_id f) \<in> set (map brp_file_id (bug_report_points db))"

subsection \<open>Example database states\<close>


definition example_files :: database where
  "example_files =
     \<lparr>run_locks = [],
      files =
        [\<lparr>file_id = 1, filepath = ''a.c'', file_content_hash = Some ''h1''\<rparr>,
         \<lparr>file_id = 2, filepath = ''b.h'', file_content_hash = Some ''h2''\<rparr>,
         \<lparr>file_id = 3, filepath = ''c.c'', file_content_hash = Some ''h3''\<rparr>,
         \<lparr>file_id = 4, filepath = ''d.h'', file_content_hash = Some ''h2''\<rparr>],
      file_contents =
        [\<lparr>content_hash = ''h1'', content = ''int a;''\<rparr>,
         \<lparr>content_hash = ''h2'', content = ''int b;''\<rparr>,
         \<lparr>content_hash = ''h3'', content = ''int c;''\<rparr>,
         \<lparr>content_hash = ''h4'', content = ''int d;''\<rparr>],
      bug_path_events =
        [\<lparr>bpe_file_id = Some 1, bpe_report_id = 10\<rparr>,
         \<lparr>bpe_file_id = Some 1, bpe_report_id = 11\<rparr>],
      bug_report_points = [\<lparr>brp_file_id = Some 2, brp_report_id = 10\<rparr>],
      reports =
        [\<lparr>report_id = 10, report_file_id = Some 1,
          checker_id = ''core.DivideZero'', severity = 3\<rparr>]\<rparr>"

definition example_cascade :: database where
  "example_cascade =
     \<lparr>run_locks = [],
      files =
        [\<lparr>file_id = 1, filepath = ''a.c'', file_content_hash = Some ''h1''\<rparr>,
         \<lparr>file_id = 2, filepath = ''b.c'', file_content_hash = Some ''h2''\<rparr>],
      file_contents =
        [\<lparr>content_hash = ''h1'', content = ''int a;''\<rparr>,
         \<lparr>content_hash = ''h2'', content = ''int b;''\<rparr>],
      bug_path_events = [\<lparr>bpe_file_id = Some 1, bpe_report_id = 10\<rparr>],
      bug_report_points = [],
      reports =
        [\<lparr>report_id = 10, report_file_id = Some 2,
          checker_id = ''core.DivideZero'', severity = 3\<rparr>]\<rparr>"

definition example_null :: database where
  "example_null =
     \<lparr>run_locks = [],
      files =
        [\<lparr>file_id = 1, filepath = ''a.c'', file_content_hash = Some ''h1''\<rparr>,
         \<lparr>file_id = 3, filepath = ''c.c'', file_content_hash = None\<rparr>],
      file_contents =
        [\<lparr>content_hash = ''h1'', content = ''int a;''\<rparr>,
         \<lparr>content_hash = ''h4'', content = ''int d;''\<rparr>],
      bug_path_events =
        [\<lparr>bpe_file_id = Some 1, bpe_report_id = 10\<rparr>,
         \<lparr>bpe_file_id = None, bpe_report_id = 10\<rparr>],
      bug_report_points = [],
      reports = []\<rparr>"

section \<open>Diagnostic ingestion: Schema Normalizer and Hash Engine\<close>

text \<open>
  \<open>tests/unit/test_plist_parser.py\<close> exercises \<open>libcodechecker.plist_parser\<close>, which
  is not among the sources: the parser, the checker-name lookup and the hash computation
  are known here only through the specification (sections 3, 4.2 and 4.3) and through
  the values the tests expect. The definitions of this section follow the specification's
  words. What the specification leaves to collaborators or does not fix is an argument:
  the description-to-checker-name table, the digest, \<open>read_source_line\<close>, and the
  selection of the window of adjacent non-blank lines.
\<close>

subsection \<open>Diagnostics\<close>

text \<open>
  Modelled from the spec: the raw \<open>Diagnostic\<close> of section 3 (the bundle parser that
  produces it is missing). \<open>checker_name\<close> and \<open>embedded_hash\<close> are optional; the
  location is \<open>{file_index, line, column}\<close>; the path is a sequence of path events
  (location and message) and path points (location only).
\<close>

record location =
  file_index :: nat
  line :: nat
  column :: nat

datatype path_element =
    PathEvent location string
  | PathPoint location

record diagnostic =
  category :: string
  diag_type :: string
  description :: string
  checker_name :: "string option"
  location :: location
  context_name :: string
  context_kind :: string
  path :: "path_element list"
  embedded_hash :: "string option"

text \<open>
  Modelled from the spec: the \<open>NormalizedDiagnostic\<close> of section 3 (the normalizer's
  result type is missing): the raw diagnostic, the resolved checker name, which is never
  absent, and the provenance of that name.
\<close>

datatype provenance = Declared | Inferred | Unresolved

record normalized_diagnostic =
  raw :: diagnostic
  resolved_checker_name :: string
  provenance :: provenance

subsection \<open>Schema Normalizer\<close>

definition NOT_FOUND :: string where
  "NOT_FOUND = ''NOT FOUND''"

text \<open>
  Modelled from the spec: the Schema Normalizer of section 4.2 (the checker-name lookup
  of the parser is missing). A checker name present in the bundle is used verbatim
  (declared); otherwise the description is looked up in the static table, and a match
  gives the mapped name (inferred); with no match the name is the sentinel
  \<open>NOT FOUND\<close> (unresolved). The step has no failure: its result is always a
  normalized diagnostic.
\<close>

definition normalize_diagnostic :: "(string \<times> string) list \<Rightarrow> diagnostic \<Rightarrow> normalized_diagnostic" where
  "normalize_diagnostic table d =
     (case checker_name d of
        Some name \<Rightarrow> \<lparr>raw = d, resolved_checker_name = name, provenance = Declared\<rparr>
      | None \<Rightarrow>
          (case map_of table (description d) of
             Some name \<Rightarrow> \<lparr>raw = d, resolved_checker_name = name, provenance = Inferred\<rparr>
           | None \<Rightarrow>
               \<lparr>raw = d, resolved_checker_name = NOT_FOUND, provenance = Unresolved\<rparr>))"

subsection \<open>Hash Engine: the content hash\<close>

text \<open>
  Modelled from the spec: whitespace trimming of a source line (section 4.3, step 1; the
  hash computation is missing). Leading and trailing blanks, tabs and line ends go.
\<close>

definition is_space :: "char \<Rightarrow> bool" where
  "is_space c \<longleftrightarrow> c \<in> set [CHR '' '', CHR 0x09, CHR 0x0A, CHR 0x0B, CHR 0x0C, CHR 0x0D]"

definition trim :: "string \<Rightarrow> string" where
  "trim s = rev (dropWhile is_space (rev (dropWhile is_space s)))"

text \<open>
  Modelled from the spec: the canonical string of section 4.3 is built from its
  components in order; the specification does not give the layout, here each component
  is followed by a line feed (a trimmed line holds none at its ends).
\<close>

definition canonical_string :: "string list \<Rightarrow> string" where
  "canonical_string components = concat (map (\<lambda>c. c @ [CHR 0x0A]) components)"

text \<open>Decimal digits of a line or column number, for the location-only fallback.\<close>

fun decimal :: "nat \<Rightarrow> string" where
  "decimal n =
     (if n < 10 then [char_of (48 + n)]
      else decimal (n div 10) @ [char_of (48 + n mod 10)])"

record content_hashing =
  hash_value :: string
  hash_degraded :: bool

text \<open>
  Modelled from the spec: the \<open>content_hash\<close> algorithm of section 4.3 with its failure
  mode (the hash computation of the parser is missing). The canonical string holds the
  resolved checker name, the trimmed text of the source line at \<open>location.line\<close> and the
  window of adjacent non-blank lines; it is digested to a hexadecimal string. When the
  line cannot be read the canonical string holds the location only (file path, line,
  column) and the result is flagged \<open>hash_degraded\<close>.

  \<open>digest\<close> is the digest with its hexadecimal rendering; \<open>read_source_line\<close> is the
  collaborator of section 6 (\<open>None\<close> for \<open>not_found\<close>); \<open>adjacent_lines\<close> gives the
  window for a file and a line number, of which the specification fixes neither the size
  nor the way blank lines are passed over; \<open>file_path\<close> is the entry of the bundle's
  file table that \<open>location.file_index\<close> names.
\<close>

definition compute_content_hash ::
  "(string \<Rightarrow> string) \<Rightarrow> (string \<Rightarrow> nat \<Rightarrow> string option) \<Rightarrow> (string \<Rightarrow> nat \<Rightarrow> string list)
     \<Rightarrow> string \<Rightarrow> normalized_diagnostic \<Rightarrow> content_hashing" where
  "compute_content_hash digest read_source_line adjacent_lines file_path nd =
     (let loc = location (raw nd) in
      case read_source_line file_path (line loc) of
        Some text \<Rightarrow>
          \<lparr>hash_value =
             digest (canonical_string
               (resolved_checker_name nd # trim text # adjacent_lines file_path (line loc))),
           hash_degraded = False\<rparr>
      | None \<Rightarrow>
          \<lparr>hash_value =
             digest (canonical_string [file_path, decimal (line loc), decimal (column loc)]),
           hash_degraded = True\<rparr>)"

subsection \<open>Example diagnostic\<close>

text \<open>
  The main section \<open>div_zero_skel_name\<close> that the tests start from (the checker name
  is in the bundle), with a one-entry table, a source reader for \<open>./test.h\<close> and a
  stand-in digest.
\<close>

definition div_zero_skel_name :: diagnostic where
  "div_zero_skel_name =
     \<lparr>category = ''Logic error'', diag_type = ''Division by zero'',
      description = ''Division by zero'', checker_name = Some ''core.DivideZero'',
      location = \<lparr>file_index = 1, line = 7, column = 14\<rparr>,
      context_name = ''generate_id'', context_kind = ''function'',
      path = [], embedded_hash = None\<rparr>"

definition example_table :: "(string \<times> string) list" where
  "example_table = [(''Division by zero'', ''core.DivideZero'')]"

definition example_source :: "string \<Rightarrow> nat \<Rightarrow> string option" where
  "example_source p n =
     (if p = ''./test.h'' \<and> n = 7 then Some ''    return 100 / x;  '' else None)"

definition example_digest :: "string \<Rightarrow> string" where
  "example_digest s = decimal (length s)"


section \<open>Theorems\<close>

subsection \<open>Host check\<close>

text \<open>
  C10. \<open>check_clang\<close> returns \<open>True\<close> exactly when the call of the compiler binary with
  \<open>--version\<close> returns exit status 0. It returns \<open>False\<close> when the call returns a nonzero
  status and when the launch raises \<open>OSError\<close> with \<open>errno = ENOENT\<close>. For an \<open>OSError\<close>
  with any other \<open>errno\<close> it returns \<open>None\<close>: no boolean, and nothing is raised (the result
  type of the model has no branch for an exception of \<open>check_clang\<close> itself).
\<close>

theorem check_clang_result:
  "(check_clang subprocess_call compiler_bin env = Some True
      \<longleftrightarrow> subprocess_call [compiler_bin, ''--version''] env = Returned 0)
   \<and> (\<forall>res. subprocess_call [compiler_bin, ''--version''] env = Returned res \<and> res \<noteq> 0
          \<longrightarrow> check_clang subprocess_call compiler_bin env = Some False)
   \<and> (subprocess_call [compiler_bin, ''--version''] env = RaisedOSError (Some ENOENT)
          \<longrightarrow> check_clang subprocess_call compiler_bin env = Some False)
   \<and> (\<forall>e. subprocess_call [compiler_bin, ''--version''] env = RaisedOSError e
            \<and> e \<noteq> Some ENOENT
          \<longrightarrow> check_clang subprocess_call compiler_bin env = None)"
  by (cases "subprocess_call [compiler_bin, ''--version''] env")
     (simp_all add: check_clang_def)

text \<open>
  The four cases at a concrete launcher: \<open>clang\<close> exits with 0, \<open>gcc\<close> exits with 1,
  \<open>missing\<close> is not found (\<open>ENOENT\<close>) and any other binary fails with \<open>EACCES = 13\<close>.
\<close>

theorem check_clang_result_witness:
  "check_clang (\<lambda>cmd (env::unit).
       if cmd = [''clang'', ''--version''] then Returned 0
       else if cmd = [''gcc'', ''--version''] then Returned 1
       else if cmd = [''missing'', ''--version''] then RaisedOSError (Some 2)
       else RaisedOSError (Some 13)) ''clang'' () = Some True
   \<and> check_clang (\<lambda>cmd (env::unit).
       if cmd = [''clang'', ''--version''] then Returned 0
       else if cmd = [''gcc'', ''--version''] then Returned 1
       else if cmd = [''missing'', ''--version''] then RaisedOSError (Some 2)
       else RaisedOSError (Some 13)) ''gcc'' () = Some False
   \<and> check_clang (\<lambda>cmd (env::unit).
       if cmd = [''clang'', ''--version''] then Returned 0
       else if cmd = [''gcc'', ''--version''] then Returned 1
       else if cmd = [''missing'', ''--version''] then RaisedOSError (Some 2)
       else RaisedOSError (Some 13)) ''missing'' () = Some False
   \<and> check_clang (\<lambda>cmd (env::unit).
       if cmd = [''clang'', ''--version''] then Returned 0
       else if cmd = [''gcc'', ''--version''] then Returned 1
       else if cmd = [''missing'', ''--version''] then RaisedOSError (Some 2)
       else RaisedOSError (Some 13)) ''tidy'' () = None"
proof -
  let ?call = "\<lambda>cmd (env::unit).
       if cmd = [''clang'', ''--version''] then Returned 0
       else if cmd = [''gcc'', ''--version''] then Returned 1
       else if cmd = [''missing'', ''--version''] then RaisedOSError (Some 2)
       else RaisedOSError (Some 13)"
  have a: "check_clang ?call ''clang'' () = Some True"
    using check_clang_result [of ?call "''clang''" "()"] by simp
  have b: "check_clang ?call ''gcc'' () = Some False"
    using check_clang_result [of ?call "''gcc''" "()"] by simp
  have c: "check_clang ?call ''missing'' () = Some False"
    using check_clang_result [of ?call "''missing''" "()"] by (simp add: ENOENT_def)
  have d: "check_clang ?call ''tidy'' () = None"
    using check_clang_result [of ?call "''tidy''" "()"] by (simp add: ENOENT_def)
  from a b c d show ?thesis by blast
qed

subsection \<open>Expired run locks\<close>







subsection \<open>Unused files\<close>

text \<open>
  A run in which both deletes and the commit go through stores the result of the two
  deletes; a run in which one of them raises stores nothing. A \<open>NOT IN\<close> condition that
  is true of a value means that the value is not among the rows; without \<open>NULL\<close> among
  the rows the converse holds too. The first delete removes only files that nothing
  references, and on a state without \<open>NULL\<close> in the \<open>file_id\<close> columns all of them.
\<close>

lemma remove_unused_files_completed:
  "remove_unused_files None None None db =
     ([Debug ''Garbage collection of dangling files started...'',
       Debug ''Garbage collection of dangling files finished.''],
      delete_unreferenced_contents (delete_unreferenced_files db))"
  by (simp add: remove_unused_files_def DBSession_def execute_def commit_def close_def)

lemma remove_unused_files_failed:
  "files_fault \<noteq> None \<or> contents_fault \<noteq> None \<or> commit_fault \<noteq> None \<Longrightarrow>
   snd (remove_unused_files files_fault contents_fault commit_fault db) = db"
  by (cases files_fault; cases contents_fault; cases commit_fault)
     (simp_all add: remove_unused_files_def DBSession_def execute_def commit_def close_def)

lemma notin_true_absent:
  "sql_true (notin (Some v) rows) \<Longrightarrow> Some v \<notin> set rows"
  by (auto simp: sql_true_def notin_def sql_not_def sql_in_def split: if_splits)

lemma notin_without_null:
  "None \<notin> set rows \<Longrightarrow> sql_true (notin (Some v) (remdups rows)) \<longleftrightarrow> Some v \<notin> set rows"
  by (auto simp: sql_true_def notin_def sql_not_def sql_in_def)

lemma sql_true_and:
  "sql_true (sql_and a b) \<longleftrightarrow> sql_true a \<and> sql_true b"
  by (cases a; cases b) (auto simp: sql_true_def sql_and_def)

lemma files_doomed_unreferenced:
  assumes "sql_true (sql_and (notin (Some (file_id f)) (bpe_files db))
                             (notin (Some (file_id f)) (brp_files db)))"
  shows "\<not> referenced db f"
  using assms notin_true_absent [of "file_id f" "bpe_files db"]
    notin_true_absent [of "file_id f" "brp_files db"]
  by (simp add: sql_true_and bpe_files_def brp_files_def referenced_def)

lemma files_doomed_without_null:
  assumes "None \<notin> set (map bpe_file_id (bug_path_events db))"
    and "None \<notin> set (map brp_file_id (bug_report_points db))"
  shows "sql_true (sql_and (notin (Some (file_id f)) (bpe_files db))
                           (notin (Some (file_id f)) (brp_files db)))
         \<longleftrightarrow> \<not> referenced db f"
  using assms
  by (simp add: sql_true_and bpe_files_def brp_files_def notin_without_null referenced_def)

lemma delete_files_files: "files (delete_files doomed db) = filter (\<lambda>f. \<not> doomed f) (files db)"
  and delete_files_contents: "file_contents (delete_files doomed db) = file_contents db"
  by (simp_all add: delete_files_def Let_def)

lemma names_key_Nil: "\<not> names_key x []"
  by (cases x) (simp_all add: names_key_def)

lemma delete_files_none:
  assumes "\<forall>f \<in> set (files db). \<not> doomed f"
  shows "delete_files doomed db = db"
proof -
  have gone: "filter doomed (files db) = []"
    using assms by (simp add: filter_empty_conv)
  have kept: "filter (\<lambda>f. \<not> doomed f) (files db) = files db"
    using assms by (simp add: filter_id_conv)
  show ?thesis
    by (simp add: delete_files_def gone kept names_key_Nil)
qed

text \<open>The second delete cascades to no file, on any state.\<close>

lemma delete_unreferenced_contents_eq:
  "delete_unreferenced_contents db =
     db\<lparr>file_contents :=
          filter (\<lambda>c. \<not> sql_true (notin (Some (content_hash c)) (file_hashes db)))
            (file_contents db)\<rparr>"
proof -
  let ?doomed = "\<lambda>c::file_content_row. sql_true (notin (Some (content_hash c)) (file_hashes db))"
  let ?db1 = "db\<lparr>file_contents := filter (\<lambda>c. \<not> ?doomed c) (file_contents db)\<rparr>"
  have "\<forall>f \<in> set (files ?db1).
          \<not> names_key (file_content_hash f) (map content_hash (filter ?doomed (file_contents db)))"
  proof (intro ballI notI)
    fix f
    assume f: "f \<in> set (files ?db1)"
      and key: "names_key (file_content_hash f)
                  (map content_hash (filter ?doomed (file_contents db)))"
    from key obtain c :: file_content_row
      where c: "?doomed c" and h: "file_content_hash f = Some (content_hash c)"
      by (auto simp: names_key_def split: option.splits)
    from f h have "Some (content_hash c) \<in> set (file_hashes db)"
      by (force simp: file_hashes_def)
    with notin_true_absent [OF c] show False by simp
  qed
  then have "delete_files
       (\<lambda>f. names_key (file_content_hash f) (map content_hash (filter ?doomed (file_contents db))))
       ?db1 = ?db1"
    by (rule delete_files_none)
  then show ?thesis
    by (simp add: delete_unreferenced_contents_def delete_file_contents_def Let_def)
qed

lemma delete_files_no_cascade:
  assumes "\<forall>r \<in> set (reports db). \<forall>f \<in> set (files db).
             report_file_id r = Some (file_id f) \<longrightarrow> referenced db f"
  shows "bug_path_events (delete_files (\<lambda>f. \<not> referenced db f) db) = bug_path_events db"
    and "bug_report_points (delete_files (\<lambda>f. \<not> referenced db f) db) = bug_report_points db"
    and "reports (delete_files (\<lambda>f. \<not> referenced db f) db) = reports db"
proof -
  let ?gone = "map file_id (filter (\<lambda>f. \<not> referenced db f) (files db))"
  have rep: "\<not> names_key (report_file_id r) ?gone" if "r \<in> set (reports db)" for r
    using that assms by (cases "report_file_id r") (auto simp: names_key_def)
  have ev: "\<not> names_key (bpe_file_id e) ?gone" if "e \<in> set (bug_path_events db)" for e
    using that by (cases "bpe_file_id e") (force simp: names_key_def referenced_def)+
  have pt: "\<not> names_key (brp_file_id p) ?gone" if "p \<in> set (bug_report_points db)" for p
    using that by (cases "brp_file_id p") (force simp: names_key_def referenced_def)+
  have no_reports: "filter (\<lambda>r. names_key (report_file_id r) ?gone) (reports db) = []"
    using rep by (simp add: filter_empty_conv)
  show "bug_path_events (delete_files (\<lambda>f. \<not> referenced db f) db) = bug_path_events db"
    unfolding delete_files_def Let_def no_reports using ev by (simp add: filter_id_conv)
  show "bug_report_points (delete_files (\<lambda>f. \<not> referenced db f) db) = bug_report_points db"
    unfolding delete_files_def Let_def no_reports using pt by (simp add: filter_id_conv)
  show "reports (delete_files (\<lambda>f. \<not> referenced db f) db) = reports db"
    unfolding delete_files_def Let_def using rep by (simp add: filter_id_conv)
qed

text \<open>
  C8 (amended). After a run of \<open>remove_unused_files\<close> in which both deletes and the commit
  go through, on any database state: no \<open>File\<close> row that a bug path event or a bug
  report point of the state before the run references has been deleted, and neither has
  the \<open>FileContent\<close> of such a row. If no \<open>BugPathEvent.file_id\<close> and no
  \<open>BugReportPoint.file_id\<close> is \<open>NULL\<close>, every remaining \<open>File\<close> row was referenced by
  a bug path event or a bug report point of the state before the run. If no
  \<open>File.content_hash\<close> is \<open>NULL\<close>, every remaining \<open>FileContent\<close> row has the
  \<open>content_hash\<close> of a remaining \<open>File\<close> row. If no such \<open>file_id\<close> is \<open>NULL\<close> and the
  file of every report is referenced, so that the deletes cascade to nothing, then the
  reports, bug path events and bug report points are unchanged and every remaining
  \<open>File\<close> row is referenced by a bug path event or a bug report point of the resulting
  state.
\<close>

theorem remove_unused_files_invariant:
  assumes run: "remove_unused_files None None None db = (logs, db')"
  shows "(\<forall>f \<in> set (files db). referenced db f \<longrightarrow> f \<in> set (files db'))
    \<and> (\<forall>c \<in> set (file_contents db).
          (\<exists>f \<in> set (files db). referenced db f \<and> file_content_hash f = Some (content_hash c))
            \<longrightarrow> c \<in> set (file_contents db'))
    \<and> (None \<notin> set (map bpe_file_id (bug_path_events db))
          \<and> None \<notin> set (map brp_file_id (bug_report_points db))
        \<longrightarrow> (\<forall>f \<in> set (files db'). referenced db f))
    \<and> (None \<notin> set (map file_content_hash (files db))
        \<longrightarrow> (\<forall>c \<in> set (file_contents db').
               \<exists>f \<in> set (files db'). file_content_hash f = Some (content_hash c)))
    \<and> (None \<notin> set (map bpe_file_id (bug_path_events db))
          \<and> None \<notin> set (map brp_file_id (bug_report_points db))
          \<and> (\<forall>r \<in> set (reports db). \<forall>f \<in> set (files db).
                report_file_id r = Some (file_id f) \<longrightarrow> referenced db f)
        \<longrightarrow> bug_path_events db' = bug_path_events db
            \<and> bug_report_points db' = bug_report_points db
            \<and> reports db' = reports db
            \<and> (\<forall>f \<in> set (files db'). referenced db' f))"
proof -
  let ?doomed = "\<lambda>f. sql_true (sql_and (notin (Some (file_id f)) (bpe_files db))
                                         (notin (Some (file_id f)) (brp_files db)))"
  let ?db1 = "delete_unreferenced_files db"
  have db1: "?db1 = delete_files ?doomed db"
    by (simp add: delete_unreferenced_files_def)
  have files1: "files ?db1 = filter (\<lambda>f. \<not> ?doomed f) (files db)"
    by (simp add: db1 delete_files_files)
  have contents1: "file_contents ?db1 = file_contents db"
    by (simp add: db1 delete_files_contents)
  from run have db': "db' = ?db1\<lparr>file_contents :=
      filter (\<lambda>c. \<not> sql_true (notin (Some (content_hash c)) (file_hashes ?db1)))
        (file_contents ?db1)\<rparr>"
    by (simp add: remove_unused_files_completed delete_unreferenced_contents_eq [symmetric])
  have files': "files db' = filter (\<lambda>f. \<not> ?doomed f) (files db)"
    by (simp add: db' files1)
  have contents': "file_contents db' =
      filter (\<lambda>c. \<not> sql_true (notin (Some (content_hash c)) (file_hashes ?db1)))
        (file_contents db)"
    by (simp add: db' contents1)
  have part1: "\<forall>f \<in> set (files db). referenced db f \<longrightarrow> f \<in> set (files db')"
    using files_doomed_unreferenced [of _ db] by (auto simp: files')
  have part2: "\<forall>c \<in> set (file_contents db).
      (\<exists>f \<in> set (files db). referenced db f \<and> file_content_hash f = Some (content_hash c))
        \<longrightarrow> c \<in> set (file_contents db')"
  proof (intro ballI impI)
    fix c :: file_content_row
    assume c: "c \<in> set (file_contents db)"
      and "\<exists>f \<in> set (files db). referenced db f \<and> file_content_hash f = Some (content_hash c)"
    then obtain f where f: "f \<in> set (files db)" "referenced db f"
      and h: "file_content_hash f = Some (content_hash c)"
      by blast
    from f part1 have "f \<in> set (files db')" by blast
    then have "f \<in> set (files ?db1)" by (simp add: files' files1)
    with h have "Some (content_hash c) \<in> set (file_hashes ?db1)"
      by (force simp: file_hashes_def)
    then have "\<not> sql_true (notin (Some (content_hash c)) (file_hashes ?db1))"
      using notin_true_absent [of "content_hash c" "file_hashes ?db1"] by blast
    with c show "c \<in> set (file_contents db')" by (simp add: contents')
  qed
  have part3: "\<forall>f \<in> set (files db'). referenced db f"
    if "None \<notin> set (map bpe_file_id (bug_path_events db))
          \<and> None \<notin> set (map brp_file_id (bug_report_points db))"
    using that by (simp add: files' files_doomed_without_null)
  have part4: "\<forall>c \<in> set (file_contents db').
      \<exists>f \<in> set (files db'). file_content_hash f = Some (content_hash c)"
    if hashes: "None \<notin> set (map file_content_hash (files db))"
  proof -
    from hashes have "None \<notin> set (map file_content_hash (files ?db1))"
      by (auto simp: files1)
    then have "sql_true (notin (Some h) (file_hashes ?db1))
        \<longleftrightarrow> Some h \<notin> set (map file_content_hash (files ?db1))" for h
      unfolding file_hashes_def by (rule notin_without_null)
    then show ?thesis
      by (auto simp: contents' files' files1)
  qed
  have part5: "bug_path_events db' = bug_path_events db
        \<and> bug_report_points db' = bug_report_points db
        \<and> reports db' = reports db
        \<and> (\<forall>f \<in> set (files db'). referenced db' f)"
    if cond: "None \<notin> set (map bpe_file_id (bug_path_events db))
          \<and> None \<notin> set (map brp_file_id (bug_report_points db))
          \<and> (\<forall>r \<in> set (reports db). \<forall>f \<in> set (files db).
                report_file_id r = Some (file_id f) \<longrightarrow> referenced db f)"
  proof -
    from cond have two_valued: "?db1 = delete_files (\<lambda>f. \<not> referenced db f) db"
      by (simp add: db1 files_doomed_without_null)
    from cond have quiet: "\<forall>r \<in> set (reports db). \<forall>f \<in> set (files db).
        report_file_id r = Some (file_id f) \<longrightarrow> referenced db f"
      by blast
    have same: "bug_path_events db' = bug_path_events db"
        "bug_report_points db' = bug_report_points db" "reports db' = reports db"
      by (simp_all add: db' two_valued delete_files_no_cascade [OF quiet])
    then have "referenced db' f = referenced db f" for f
      by (simp add: referenced_def)
    with same part3 cond show ?thesis by simp
  qed
  from part1 part2 part3 part4 part5 show ?thesis by blast
qed

text \<open>
  In \<open>example_files\<close> no compared column is \<open>NULL\<close> and the file of the one report is
  referenced. Files 1 and 2 are referenced; file 3, file 4 (which shares the content of
  file 2) and the contents \<open>h3\<close> and \<open>h4\<close> are removed.
\<close>

theorem remove_unused_files_invariant_witness:
  "map file_id (files (snd (remove_unused_files None None None example_files))) = [1, 2]
   \<and> map content_hash (file_contents (snd (remove_unused_files None None None example_files)))
       = [''h1'', ''h2'']
   \<and> list_all (referenced example_files)
       (files (snd (remove_unused_files None None None example_files)))
   \<and> list_all (referenced (snd (remove_unused_files None None None example_files)))
       (files (snd (remove_unused_files None None None example_files)))
   \<and> bug_path_events (snd (remove_unused_files None None None example_files))
       = bug_path_events example_files"
proof -
  have run: "remove_unused_files None None None example_files =
      (fst (remove_unused_files None None None example_files),
       snd (remove_unused_files None None None example_files))"
    by simp
  have bpe: "None \<notin> set (map bpe_file_id (bug_path_events example_files))"
    and brp: "None \<notin> set (map brp_file_id (bug_report_points example_files))"
    by (simp_all add: example_files_def)
  have quiet: "\<forall>r \<in> set (reports example_files). \<forall>f \<in> set (files example_files).
      report_file_id r = Some (file_id f) \<longrightarrow> referenced example_files f"
    by (simp add: example_files_def referenced_def)
  note inv = remove_unused_files_invariant [OF run]
  from inv bpe brp have before:
    "\<forall>f \<in> set (files (snd (remove_unused_files None None None example_files))).
       referenced example_files f"
    by blast
  from inv bpe brp quiet have events:
    "bug_path_events (snd (remove_unused_files None None None example_files))
       = bug_path_events example_files"
    and refs: "\<forall>f \<in> set (files (snd (remove_unused_files None None None example_files))).
       referenced (snd (remove_unused_files None None None example_files)) f"
    by blast+
  have after: "map file_id (files (snd (remove_unused_files None None None example_files))) = [1, 2]
      \<and> map content_hash (file_contents (snd (remove_unused_files None None None example_files)))
        = [''h1'', ''h2'']"
    by code_simp
  from after before events refs show ?thesis by (simp add: list_all_iff)
qed

text \<open>The two runs that the statement of C8 does not survive, evaluated.\<close>

lemma example_cascade_after:
  "snd (remove_unused_files None None None example_cascade) =
     \<lparr>run_locks = [],
      files = [\<lparr>file_id = 1, filepath = ''a.c'', file_content_hash = Some ''h1''\<rparr>],
      file_contents = [\<lparr>content_hash = ''h1'', content = ''int a;''\<rparr>],
      bug_path_events = [], bug_report_points = [], reports = []\<rparr>"
  by code_simp

lemma example_null_after:
  "snd (remove_unused_files None None None example_null) = example_null"
  by code_simp

text \<open>
  C8 as stated fails on two kinds of states. In \<open>example_cascade\<close> nothing names file 2,
  so it is deleted; its report goes with it, and with the report the only bug path
  event, which named file 1: file 1 remains and nothing in the resulting state references
  it. In \<open>example_null\<close> one bug path event has no \<open>file_id\<close> and one file has no
  \<open>content_hash\<close>: neither \<open>NOT IN\<close> condition is true of any row, nothing is deleted,
  and the unreferenced file 3 and the content \<open>h4\<close>, which no file holds, remain.
\<close>

theorem remove_unused_files_counterexample:
  "map file_id (files (snd (remove_unused_files None None None example_cascade))) = [1]
   \<and> bug_path_events (snd (remove_unused_files None None None example_cascade)) = []
   \<and> bug_report_points (snd (remove_unused_files None None None example_cascade)) = []
   \<and> \<not> list_all (referenced (snd (remove_unused_files None None None example_cascade)))
         (files (snd (remove_unused_files None None None example_cascade)))
   \<and> map file_id (files (snd (remove_unused_files None None None example_null))) = [1, 3]
   \<and> \<not> list_all (referenced (snd (remove_unused_files None None None example_null)))
         (files (snd (remove_unused_files None None None example_null)))
   \<and> map content_hash (file_contents (snd (remove_unused_files None None None example_null)))
       = [''h1'', ''h4'']
   \<and> Some ''h4'' \<notin> set (map file_content_hash
         (files (snd (remove_unused_files None None None example_null))))"
  unfolding example_cascade_after example_null_after
  by (simp add: referenced_def example_null_def)

subsection \<open>Hash Engine\<close>

text \<open>
  The content hash reads the resolved checker name and the location of a normalized
  diagnostic, nothing else of it.
\<close>

lemma compute_content_hash_cong:
  assumes "resolved_checker_name nd1 = resolved_checker_name nd2"
    and "location (raw nd1) = location (raw nd2)"
  shows "compute_content_hash digest read_source_line adjacent_lines file_path nd1
       = compute_content_hash digest read_source_line adjacent_lines file_path nd2"
  using assms by (simp add: compute_content_hash_def Let_def split: option.split)

text \<open>
  C3. Take a diagnostic whose checker name is declared in the bundle, and the same
  diagnostic without the declaration, whose description the table maps to the same
  name. The first normalizes with provenance declared, the second with provenance
  inferred, both to the same checker name, and the content hash computed for the two
  (value and degraded flag) is the same, whatever the digest, the source reader and the
  window are: the provenance does not reach the hash.
\<close>

theorem content_hash_ignores_provenance:
  assumes "checker_name d = Some name"
    and "map_of table (description d) = Some name"
  shows "provenance (normalize_diagnostic table d) = Declared
    \<and> provenance (normalize_diagnostic table (d\<lparr>checker_name := None\<rparr>)) = Inferred
    \<and> resolved_checker_name (normalize_diagnostic table (d\<lparr>checker_name := None\<rparr>))
        = resolved_checker_name (normalize_diagnostic table d)
    \<and> compute_content_hash digest read_source_line adjacent_lines file_path
          (normalize_diagnostic table (d\<lparr>checker_name := None\<rparr>))
        = compute_content_hash digest read_source_line adjacent_lines file_path
          (normalize_diagnostic table d)"
proof -
  have declared: "normalize_diagnostic table d =
      \<lparr>raw = d, resolved_checker_name = name, provenance = Declared\<rparr>"
    using assms(1) by (simp add: normalize_diagnostic_def)
  have inferred: "normalize_diagnostic table (d\<lparr>checker_name := None\<rparr>) =
      \<lparr>raw = d\<lparr>checker_name := None\<rparr>, resolved_checker_name = name, provenance = Inferred\<rparr>"
    using assms(2) by (simp add: normalize_diagnostic_def)
  have "compute_content_hash digest read_source_line adjacent_lines file_path
          (normalize_diagnostic table (d\<lparr>checker_name := None\<rparr>))
        = compute_content_hash digest read_source_line adjacent_lines file_path
          (normalize_diagnostic table d)"
    by (rule compute_content_hash_cong) (simp_all add: declared inferred)
  then show ?thesis by (simp add: declared inferred)
qed

text \<open>
  The division-by-zero report of the tests, once with \<open>check_name\<close> in the bundle and
  once with the name found from the description \<open>Division by zero\<close>.
\<close>

theorem content_hash_ignores_provenance_witness:
  "provenance (normalize_diagnostic example_table div_zero_skel_name) = Declared
   \<and> provenance (normalize_diagnostic example_table (div_zero_skel_name\<lparr>checker_name := None\<rparr>)) = Inferred
   \<and> compute_content_hash example_digest example_source (\<lambda>p n. []) ''./test.h''
        (normalize_diagnostic example_table (div_zero_skel_name\<lparr>checker_name := None\<rparr>))
      = compute_content_hash example_digest example_source (\<lambda>p n. []) ''./test.h''
        (normalize_diagnostic example_table div_zero_skel_name)
   \<and> compute_content_hash example_digest example_source (\<lambda>p n. []) ''./test.h''
        (normalize_diagnostic example_table div_zero_skel_name)
      = \<lparr>hash_value = ''32'', hash_degraded = False\<rparr>"
proof -
  have declared: "checker_name div_zero_skel_name = Some ''core.DivideZero''"
    by (simp add: div_zero_skel_name_def)
  have mapped: "map_of example_table (description div_zero_skel_name) = Some ''core.DivideZero''"
    by (simp add: div_zero_skel_name_def example_table_def)
  note same = content_hash_ignores_provenance [OF declared mapped,
      of example_digest example_source "\<lambda>p n. []" "''./test.h''"]
  have v: "compute_content_hash example_digest example_source (\<lambda>p n. []) ''./test.h''
        (normalize_diagnostic example_table div_zero_skel_name)
      = \<lparr>hash_value = ''32'', hash_degraded = False\<rparr>"
    by code_simp
  from same v show ?thesis by simp
qed

end
